theory Spec2Isabelle
  imports Main "HOL-Library.Word" "HOL-Library.Sublist"
begin

section \<open>The ncloud load balancer resource\<close>

text \<open>
  A shallow embedding of \<^verbatim>\<open>ncloud/resource_ncloud_load_balancer.go\<close>: the lookup of one
  load balancer instance, the two convergence waits, and the Create, Read, Update and Delete
  operations built on them.

  Conventions of the embedding.
  \<^item> A Go function returning \<^verbatim>\<open>(x, err)\<close> returns a pair whose second component is
    \<open>go_error option\<close>; \<open>None\<close> is Go's \<^verbatim>\<open>nil\<close> error. A pointer that may be
    \<^verbatim>\<open>nil\<close> is an \<open>option\<close>.
  \<^item> A run-time panic (index out of range, nil dereference, failed type assertion) is the
    left summand of the result: \<open>panic + 'a\<close>.
  \<^item> Calls to \<^verbatim>\<open>log.Printf\<close>, \<^verbatim>\<open>logErrorResponse\<close> and
    \<^verbatim>\<open>logCommonResponse\<close> only write to the log and are left out, except where the
    value handed to the logger is computed by a branch of its own.
\<close>

subsection \<open>Errors and panics\<close>

datatype go_error =
    SdkError string     \<comment> \<open>an error value returned by a call of the cloud API client\<close>
  | Errorf string       \<comment> \<open>an error made by \<^verbatim>\<open>fmt.Errorf\<close>, with its message\<close>

fun Error :: "go_error \<Rightarrow> string" where
  "Error (SdkError m) = m"
| "Error (Errorf m) = m"

datatype panic = IndexOutOfRange | NilDereference | TypeAssertion

subsection \<open>The data of the API client used by the resource\<close>

text \<open>
  The client's type declarations are not part of the resource file; the records hold the
  fields the resource reads. The response envelope carries a request id and a status.
\<close>

record CommonCode =
  Code :: string
  CodeName :: string

record CommonResponse =
  RequestID :: string
  ReturnCode :: string
  ReturnMessage :: string

definition CommonResponse_zero :: CommonResponse where
  "CommonResponse_zero = \<lparr>RequestID = [], ReturnCode = [], ReturnMessage = []\<rparr>"

record ServerInstance =
  ServerInstanceNo :: string

record LoadBalancedServerInstance =
  ServerInstanceList :: "ServerInstance list"

record LoadBalancerRule =
  ProtocolType :: CommonCode
  LoadBalancerPort :: int
  ServerPort :: int
  L7HealthCheckPath :: string
  RuleCertificateName :: string
  ProxyProtocolUseYn :: string

record LoadBalancerInstance =
  LoadBalancerInstanceNo :: string
  VirtualIP :: string
  LoadBalancerName :: string
  LoadBalancerAlgorithmType :: CommonCode
  LoadBalancerDescription :: string
  CreateDate :: string
  DomainName :: string
  InternetLineType :: CommonCode
  LoadBalancerInstanceStatusName :: string
  LoadBalancerInstanceStatus :: CommonCode
  LoadBalancerInstanceOperation :: CommonCode
  NetworkUsageType :: CommonCode
  IsHTTPKeepAlive :: bool
  ConnectionTimeout :: int
  CertificateName :: string
  LoadBalancerRuleList :: "LoadBalancerRule list"
  LoadBalancedServerInstanceList :: "LoadBalancedServerInstance list"

text \<open>
  The response of the list call and of the create call: the envelope and the instances.
\<close>

record LoadBalancerInstanceList =
  ListCommonResponse :: CommonResponse
  LoadBalancerInstanceList :: "LoadBalancerInstance list"

record RequestLoadBalancerInstanceList =
  LoadBalancerInstanceNoList :: "string list"

record RequestDeleteLoadBalancerInstances =
  DeleteLoadBalancerInstanceNoList :: "string list"

record RequestLoadBalancerRule =
  ReqProtocolTypeCode :: string
  ReqLoadBalancerPort :: int
  ReqServerPort :: int
  ReqL7HealthCheckPath :: string
  ReqCertificateName :: string
  ReqProxyProtocolUseYn :: string

record RequestCreateLoadBalancerInstance =
  ReqLoadBalancerName :: string
  ReqLoadBalancerAlgorithmTypeCode :: string
  ReqLoadBalancerDescription :: string
  ReqLoadBalancerRuleList :: "RequestLoadBalancerRule list"
  ReqServerInstanceNoList :: "string list"
  ReqInternetLineTypeCode :: string
  ReqNetworkUsageTypeCode :: string
  ReqRegionNo :: string

subsection \<open>Resource data\<close>

text \<open>
  The values Terraform's \<^verbatim>\<open>schema.ResourceData\<close> stores are untyped
  (\<^verbatim>\<open>interface{}\<close>): strings, ints, bools, lists, string-keyed maps and \<^verbatim>\<open>nil\<close>.
  \<^verbatim>\<open>d.Get\<close> is a lookup by key, \<^verbatim>\<open>d.Set\<close> stores the value it is given under
  the key, \<^verbatim>\<open>d.Id\<close> and \<^verbatim>\<open>d.SetId\<close> read and write the resource id.
\<close>

datatype tf_value =
    VNil
  | VString string
  | VInt int
  | VBool bool
  | VList "tf_value list"
  | VMap "(string \<times> tf_value) list"

record ResourceData =
  rd_Id :: string
  rd_attrs :: "string \<Rightarrow> tf_value"

definition d_Get :: "ResourceData \<Rightarrow> string \<Rightarrow> tf_value" where
  "d_Get d key = rd_attrs d key"

definition d_Set :: "ResourceData \<Rightarrow> string \<Rightarrow> tf_value \<Rightarrow> ResourceData" where
  "d_Set d key v = d\<lparr>rd_attrs := (rd_attrs d)(key := v)\<rparr>"

definition d_SetId :: "ResourceData \<Rightarrow> string \<Rightarrow> ResourceData" where
  "d_SetId d no = d\<lparr>rd_Id := no\<rparr>"

subsection \<open>The connection and the clock\<close>

text \<open>
  Time is counted in nanoseconds, as \<^verbatim>\<open>time.Duration\<close> does, and a
  \<^verbatim>\<open>time.Duration\<close> is a signed 64-bit integer whose arithmetic wraps.
\<close>

type_synonym Duration = "64 word"

definition time_Second :: Duration where
  "time_Second = 1000000000"

text \<open>
  The remote side is outside the program. The \<open>n\<close>-th list call made on a connection
  (counted from 0) answers after \<open>took\<close> nanoseconds with a response pointer and an error;
  what it answers may depend on \<open>n\<close>, since the remote state changes between calls.
\<close>

record list_reply =
  took :: nat
  list_resp :: "LoadBalancerInstanceList option"
  list_err :: "go_error option"

record Conn =
  CreateLoadBalancerInstance ::
    "RequestCreateLoadBalancerInstance \<Rightarrow> LoadBalancerInstanceList option \<times> go_error option"
  GetLoadBalancerInstanceList :: "nat \<Rightarrow> RequestLoadBalancerInstanceList \<Rightarrow> list_reply"
  DeleteLoadBalancerInstances ::
    "RequestDeleteLoadBalancerInstances \<Rightarrow> LoadBalancerInstanceList option \<times> go_error option"

text \<open>
  What the resource file uses and does not declare: the two timeout constants, the helper
  \<^verbatim>\<open>StringList\<close>, and the choice \<^verbatim>\<open>select\<close> makes when the poller's result and
  the timer are ready at the same instant (Go picks one of the ready cases at random).
\<close>

record externals =
  DefaultTimeout :: Duration
  DefaultCreateTimeout :: Duration
  StringList :: "tf_value list \<Rightarrow> panic + string list"
  select_takes_timer :: bool

subsection \<open>getLoadBalancerInstance\<close>

text \<open>
  The loop over the response: the first instance whose number equals the requested one.
\<close>

fun find_instance :: "string \<Rightarrow> LoadBalancerInstance list \<Rightarrow> LoadBalancerInstance option" where
  "find_instance no [] = None"
| "find_instance no (inst # rest) =
     (if no = LoadBalancerInstanceNo inst then Some inst else find_instance no rest)"

definition getLoadBalancerInstance ::
  "Conn \<Rightarrow> nat \<Rightarrow> string \<Rightarrow> panic + (LoadBalancerInstance option \<times> go_error option)" where
  "getLoadBalancerInstance conn n no =
     (let reqParams = \<lparr>LoadBalancerInstanceNoList = [no]\<rparr>;
          r = GetLoadBalancerInstanceList conn n reqParams
      in case list_err r of
           Some err \<Rightarrow> Inr (None, Some err)
         | None \<Rightarrow>
             (case list_resp r of
                None \<Rightarrow> Inl NilDereference
              | Some resp \<Rightarrow> Inr (find_instance no (LoadBalancerInstanceList resp), None)))"

definition call_took :: "Conn \<Rightarrow> nat \<Rightarrow> string \<Rightarrow> nat" where
  "call_took conn n no = took (GetLoadBalancerInstanceList conn n \<lparr>LoadBalancerInstanceNoList = [no]\<rparr>)"

subsection \<open>The two waits\<close>

text \<open>
  Each wait starts a goroutine that polls in a loop and sends its result on a channel, and
  then blocks in a \<^verbatim>\<open>select\<close> between that channel and \<^verbatim>\<open>time.After\<close>. The
  model follows the goroutine along the clock, which starts at 0 when the wait is called and
  advances by the duration of each call and of each \<^verbatim>\<open>time.Sleep\<close>; everything else
  takes no time. The select returns the goroutine's value when it is sent before the timer
  fires, and the timeout error otherwise; a goroutine still running then is abandoned.

  \<open>polls\<close> and \<open>sleeps\<close> count the list calls issued and the sleeps begun by the
  goroutine when the wait returns; \<open>finished_at\<close> is the clock at that moment.
\<close>

datatype select_case = FromPoller | FromTimer

record wait_outcome =
  returned :: "panic + go_error option"
  via :: select_case
  polls :: nat
  sleeps :: nat
  finished_at :: nat

definition timer_after :: "Duration \<Rightarrow> nat" where
  \<comment> \<open>\<^verbatim>\<open>time.After(d)\<close> fires \<open>d\<close> nanoseconds from now, at once when \<open>d \<le> 0\<close>\<close>
  "timer_after d = nat (sint d)"

definition sleep_ns :: nat where
  \<comment> \<open>\<^verbatim>\<open>time.Sleep(time.Second * 1)\<close>\<close>
  "sleep_ns = nat (sint (time_Second * 1))"

definition fired :: "bool \<Rightarrow> nat \<Rightarrow> nat \<Rightarrow> bool" where
  \<comment> \<open>has the timer set for \<open>deadline\<close> won the select against a send at time \<open>t\<close>?\<close>
  "fired tie deadline t = (deadline < t \<or> (deadline = t \<and> tie))"

definition timeout_error :: "string \<Rightarrow> go_error" where
  \<comment> \<open>\<^verbatim>\<open>fmt.Errorf("TIMEOUT : delete load balancer instance [%s] ", id)\<close>\<close>
  "timeout_error no = Errorf (''TIMEOUT : delete load balancer instance ['' @ no @ ''] '')"

definition timed_out :: "string \<Rightarrow> nat \<Rightarrow> nat \<Rightarrow> nat \<Rightarrow> wait_outcome" where
  "timed_out no deadline p s =
     \<lparr>returned = Inr (Some (timeout_error no)), via = FromTimer,
      polls = p, sleeps = s, finished_at = deadline\<rparr>"

definition sent :: "panic + go_error option \<Rightarrow> nat \<Rightarrow> nat \<Rightarrow> wait_outcome" where
  "sent res n t = \<lparr>returned = res, via = FromPoller, polls = Suc n, sleeps = n, finished_at = t\<rparr>"

text \<open>
  The goroutine of the create-oriented wait, raced against the timer. \<open>n\<close> is the number
  of the poll about to be issued and \<open>now\<close> the clock. The timer wins when it has fired
  while the goroutine slept, or fires before the reply of the poll arrives; otherwise the
  reply is handled as the loop body does: an error or a panic ends the wait, an absent
  instance or the target status sends nil, anything else sleeps a second and polls again. A
  panic in the goroutine ends the whole program and is the result of the wait. Every turn
  advances the clock by at least the second slept, so the deadline bounds the recursion.
\<close>

function poll_until :: "bool \<Rightarrow> Conn \<Rightarrow> string \<Rightarrow> string \<Rightarrow> nat \<Rightarrow> nat \<Rightarrow> nat \<Rightarrow> wait_outcome" where
  "poll_until tie conn no status deadline n now =
     (if fired tie deadline now then timed_out no deadline n n
      else if fired tie deadline (now + call_took conn n no) then timed_out no deadline (Suc n) n
      else
        (case getLoadBalancerInstance conn n no of
           Inl p \<Rightarrow> sent (Inl p) n (now + call_took conn n no)
         | Inr (instance, Some err) \<Rightarrow> sent (Inr (Some err)) n (now + call_took conn n no)
         | Inr (None, None) \<Rightarrow> sent (Inr None) n (now + call_took conn n no)
         | Inr (Some inst, None) \<Rightarrow>
             if Code (LoadBalancerInstanceStatus inst) = status
             then sent (Inr None) n (now + call_took conn n no)
             else poll_until tie conn no status deadline (Suc n)
                    (now + call_took conn n no + sleep_ns)))"
  by pat_completeness auto

termination poll_until
  by (relation "measure (\<lambda>(tie, conn, no, status, deadline, n, now). Suc deadline - now)")
     (auto simp: fired_def sleep_ns_def time_Second_def)

definition waitForLoadBalancerInstance ::
  "externals \<Rightarrow> Conn \<Rightarrow> string \<Rightarrow> string \<Rightarrow> Duration \<Rightarrow> wait_outcome" where
  "waitForLoadBalancerInstance ext conn no status timeout =
     poll_until (select_takes_timer ext) conn no status (timer_after (time_Second * timeout)) 0 0"

text \<open>The goroutine of the delete-oriented wait: the same loop without the status test.\<close>

function poll_until_gone :: "bool \<Rightarrow> Conn \<Rightarrow> string \<Rightarrow> nat \<Rightarrow> nat \<Rightarrow> nat \<Rightarrow> wait_outcome" where
  "poll_until_gone tie conn no deadline n now =
     (if fired tie deadline now then timed_out no deadline n n
      else if fired tie deadline (now + call_took conn n no) then timed_out no deadline (Suc n) n
      else
        (case getLoadBalancerInstance conn n no of
           Inl p \<Rightarrow> sent (Inl p) n (now + call_took conn n no)
         | Inr (instance, Some err) \<Rightarrow> sent (Inr (Some err)) n (now + call_took conn n no)
         | Inr (None, None) \<Rightarrow> sent (Inr None) n (now + call_took conn n no)
         | Inr (Some inst, None) \<Rightarrow>
             poll_until_gone tie conn no deadline (Suc n) (now + call_took conn n no + sleep_ns)))"
  by pat_completeness auto

termination poll_until_gone
  by (relation "measure (\<lambda>(tie, conn, no, deadline, n, now). Suc deadline - now)")
     (auto simp: fired_def sleep_ns_def time_Second_def)

definition waitForDeleteLoadBalancerInstance :: "externals \<Rightarrow> Conn \<Rightarrow> string \<Rightarrow> wait_outcome" where
  "waitForDeleteLoadBalancerInstance ext conn no =
     poll_until_gone (select_takes_timer ext) conn no
       (timer_after (time_Second * DefaultTimeout ext)) 0 0"

subsection \<open>Read\<close>

definition CommonCode_map :: "CommonCode \<Rightarrow> tf_value" where
  "CommonCode_map c = VMap [(''code'', VString (Code c)), (''code_name'', VString (CodeName c))]"

definition rule_map :: "LoadBalancerRule \<Rightarrow> tf_value" where
  "rule_map r = VMap
     [(''protocol_type_code'', CommonCode_map (ProtocolType r)),
      (''load_balancer_port'', VInt (LoadBalancerPort r)),
      (''server_port'', VInt (ServerPort r)),
      (''l7_health_check_path'', VString (L7HealthCheckPath r)),
      (''certificate_name'', VString (RuleCertificateName r)),
      (''proxy_protocol_use_yn'', VString (ProxyProtocolUseYn r))]"

fun getLoadBalancerRuleList :: "LoadBalancerRule list \<Rightarrow> tf_value list" where
  "getLoadBalancerRuleList [] = []"
| "getLoadBalancerRuleList (r # rs) = rule_map r # getLoadBalancerRuleList rs"

text \<open>
  \<^verbatim>\<open>instance.ServerInstanceList[0]\<close> panics on an empty list; the loop stops at the first
  bound instance where it does.
\<close>

fun getLoadBalancedServerInstanceList :: "LoadBalancedServerInstance list \<Rightarrow> panic + string list" where
  "getLoadBalancedServerInstanceList [] = Inr []"
| "getLoadBalancedServerInstanceList (instance # rest) =
     (case ServerInstanceList instance of
        [] \<Rightarrow> Inl IndexOutOfRange
      | s # _ \<Rightarrow>
          (case getLoadBalancedServerInstanceList rest of
             Inl p \<Rightarrow> Inl p
           | Inr list \<Rightarrow> Inr (ServerInstanceNo s # list)))"

definition set_scalars :: "ResourceData \<Rightarrow> LoadBalancerInstance \<Rightarrow> ResourceData" where
  \<comment> \<open>the fourteen \<^verbatim>\<open>d.Set\<close> calls before the two lists, in the order of the source\<close>
  "set_scalars d lb =
     (let d = d_Set d ''virtual_ip'' (VString (VirtualIP lb));
          d = d_Set d ''load_balancer_name'' (VString (LoadBalancerName lb));
          d = d_Set d ''load_balancer_algorithm_type'' (CommonCode_map (LoadBalancerAlgorithmType lb));
          d = d_Set d ''load_balancer_description'' (VString (LoadBalancerDescription lb));
          d = d_Set d ''create_date'' (VString (CreateDate lb));
          d = d_Set d ''domain_name'' (VString (DomainName lb));
          d = d_Set d ''internet_line_type'' (CommonCode_map (InternetLineType lb));
          d = d_Set d ''load_balancer_instance_status_name'' (VString (LoadBalancerInstanceStatusName lb));
          d = d_Set d ''load_balancer_instance_status'' (CommonCode_map (LoadBalancerInstanceStatus lb));
          d = d_Set d ''load_balancer_instance_operation'' (CommonCode_map (LoadBalancerInstanceOperation lb));
          d = d_Set d ''network_usage_type'' (CommonCode_map (NetworkUsageType lb));
          d = d_Set d ''is_http_keep_alive'' (VBool (IsHTTPKeepAlive lb));
          d = d_Set d ''connection_timeout'' (VInt (ConnectionTimeout lb));
          d = d_Set d ''certificate_name'' (VString (CertificateName lb))
      in d)"

definition set_rule_list :: "ResourceData \<Rightarrow> LoadBalancerInstance \<Rightarrow> ResourceData" where
  "set_rule_list d lb =
     (if length (LoadBalancerRuleList lb) \<noteq> 0
      then d_Set d ''load_balancer_rule_list'' (VList (getLoadBalancerRuleList (LoadBalancerRuleList lb)))
      else d)"

definition set_server_instance_list :: "ResourceData \<Rightarrow> LoadBalancerInstance \<Rightarrow> panic + ResourceData" where
  "set_server_instance_list d lb =
     (if length (LoadBalancedServerInstanceList lb) \<noteq> 0
      then (case getLoadBalancedServerInstanceList (LoadBalancedServerInstanceList lb) of
              Inl p \<Rightarrow> Inl p
            | Inr list \<Rightarrow> Inr (d_Set d ''load_balanced_server_instance_list'' (VList (map VString list))))
      else Inr (d_Set d ''load_balanced_server_instance_list'' VNil))"

text \<open>
  \<open>n\<close> is the number of list calls made on the connection before this one. The result is
  the resource data after the call and the error returned.
\<close>

definition resourceNcloudLoadBalancerRead ::
  "Conn \<Rightarrow> nat \<Rightarrow> ResourceData \<Rightarrow> panic + (ResourceData \<times> go_error option)" where
  "resourceNcloudLoadBalancerRead conn n d =
     (case getLoadBalancerInstance conn n (rd_Id d) of
        Inl p \<Rightarrow> Inl p
      | Inr (lb, Some err) \<Rightarrow> Inr (d, Some err)
      | Inr (None, None) \<Rightarrow> Inr (d, None)
      | Inr (Some lb, None) \<Rightarrow>
          (case set_server_instance_list (set_rule_list (set_scalars d lb) lb) lb of
             Inl p \<Rightarrow> Inl p
           | Inr d' \<Rightarrow> Inr (d', None)))"

definition resourceNcloudLoadBalancerUpdate ::
  "Conn \<Rightarrow> nat \<Rightarrow> ResourceData \<Rightarrow> panic + (ResourceData \<times> go_error option)" where
  "resourceNcloudLoadBalancerUpdate conn n d = resourceNcloudLoadBalancerRead conn n d"

subsection \<open>Create\<close>

text \<open>Type assertions on untyped values: \<^verbatim>\<open>v.(string)\<close> and the like panic on another type.\<close>

fun as_string :: "tf_value \<Rightarrow> panic + string" where
  "as_string (VString s) = Inr s"
| "as_string _ = Inl TypeAssertion"

fun as_int :: "tf_value \<Rightarrow> panic + int" where
  "as_int (VInt i) = Inr i"
| "as_int _ = Inl TypeAssertion"

fun as_list :: "tf_value \<Rightarrow> panic + tf_value list" where
  "as_list (VList vs) = Inr vs"
| "as_list _ = Inl TypeAssertion"

fun as_map :: "tf_value \<Rightarrow> panic + (string \<times> tf_value) list" where
  "as_map (VMap kvs) = Inr kvs"
| "as_map _ = Inl TypeAssertion"

definition RequestLoadBalancerRule_zero :: RequestLoadBalancerRule where
  "RequestLoadBalancerRule_zero =
     \<lparr>ReqProtocolTypeCode = [], ReqLoadBalancerPort = 0, ReqServerPort = 0,
      ReqL7HealthCheckPath = [], ReqCertificateName = [], ReqProxyProtocolUseYn = []\<rparr>"

text \<open>The \<^verbatim>\<open>switch key\<close> of the inner loop, for one entry of a rule's map.\<close>

definition set_rule_field ::
  "RequestLoadBalancerRule \<Rightarrow> string \<times> tf_value \<Rightarrow> panic + RequestLoadBalancerRule" where
  "set_rule_field lbRule kv =
     (let key = fst kv; v = snd kv in
      if key = ''protocol_type_code'' then
        (case as_string v of Inl p \<Rightarrow> Inl p | Inr x \<Rightarrow> Inr (lbRule\<lparr>ReqProtocolTypeCode := x\<rparr>))
      else if key = ''load_balancer_port'' then
        (case as_int v of Inl p \<Rightarrow> Inl p | Inr x \<Rightarrow> Inr (lbRule\<lparr>ReqLoadBalancerPort := x\<rparr>))
      else if key = ''server_port'' then
        (case as_int v of Inl p \<Rightarrow> Inl p | Inr x \<Rightarrow> Inr (lbRule\<lparr>ReqServerPort := x\<rparr>))
      else if key = ''l7_health_check_path'' then
        (case as_string v of Inl p \<Rightarrow> Inl p | Inr x \<Rightarrow> Inr (lbRule\<lparr>ReqL7HealthCheckPath := x\<rparr>))
      else if key = ''certificate_name'' then
        (case as_string v of Inl p \<Rightarrow> Inl p | Inr x \<Rightarrow> Inr (lbRule\<lparr>ReqCertificateName := x\<rparr>))
      else if key = ''proxy_protocol_use_yn'' then
        (case as_string v of Inl p \<Rightarrow> Inl p | Inr x \<Rightarrow> Inr (lbRule\<lparr>ReqProxyProtocolUseYn := x\<rparr>))
      else Inr lbRule)"

fun build_rule :: "RequestLoadBalancerRule \<Rightarrow> (string \<times> tf_value) list \<Rightarrow> panic + RequestLoadBalancerRule" where
  "build_rule lbRule [] = Inr lbRule"
| "build_rule lbRule (kv # kvs) =
     (case set_rule_field lbRule kv of Inl p \<Rightarrow> Inl p | Inr lbRule' \<Rightarrow> build_rule lbRule' kvs)"

fun build_rules :: "tf_value list \<Rightarrow> panic + RequestLoadBalancerRule list" where
  "build_rules [] = Inr []"
| "build_rules (v # vs) =
     (case as_map v of
        Inl p \<Rightarrow> Inl p
      | Inr kvs \<Rightarrow>
          (case build_rule RequestLoadBalancerRule_zero kvs of
             Inl p \<Rightarrow> Inl p
           | Inr lbRule \<Rightarrow>
               (case build_rules vs of Inl p \<Rightarrow> Inl p | Inr lbRuleList \<Rightarrow> Inr (lbRule # lbRuleList))))"

definition and_then :: "panic + 'a \<Rightarrow> ('a \<Rightarrow> panic + 'b) \<Rightarrow> panic + 'b" where
  \<comment> \<open>evaluate, and go on unless it panicked\<close>
  "and_then r f = (case r of Inl p \<Rightarrow> Inl p | Inr x \<Rightarrow> f x)"

definition buildCreateLoadBalancerInstanceParams ::
  "externals \<Rightarrow> ResourceData \<Rightarrow> panic + RequestCreateLoadBalancerInstance" where
  "buildCreateLoadBalancerInstanceParams ext d =
     and_then (as_list (d_Get d ''load_balancer_rule_list'')) (\<lambda>rules.
     and_then (build_rules rules) (\<lambda>lbRuleList.
     and_then (as_string (d_Get d ''load_balancer_name'')) (\<lambda>name.
     and_then (as_string (d_Get d ''load_balancer_algorithm_type_code'')) (\<lambda>algo.
     and_then (as_string (d_Get d ''load_balancer_description'')) (\<lambda>descr.
     and_then (as_list (d_Get d ''server_instance_no_list'')) (\<lambda>servers.
     and_then (StringList ext servers) (\<lambda>serverNos.
     and_then (as_string (d_Get d ''internet_line_type_code'')) (\<lambda>line.
     and_then (as_string (d_Get d ''network_usage_type_code'')) (\<lambda>usage.
     and_then (as_string (d_Get d ''region_no'')) (\<lambda>region.
       Inr \<lparr>ReqLoadBalancerName = name,
            ReqLoadBalancerAlgorithmTypeCode = algo,
            ReqLoadBalancerDescription = descr,
            ReqLoadBalancerRuleList = lbRuleList,
            ReqServerInstanceNoList = serverNos,
            ReqInternetLineTypeCode = line,
            ReqNetworkUsageTypeCode = usage,
            ReqRegionNo = region\<rparr>))))))))))"

text \<open>
  The read that ends a successful create is the list call after the wait's polls.
\<close>

definition resourceNcloudLoadBalancerCreate ::
  "externals \<Rightarrow> Conn \<Rightarrow> ResourceData \<Rightarrow> panic + (ResourceData \<times> go_error option)" where
  "resourceNcloudLoadBalancerCreate ext conn d =
     (case buildCreateLoadBalancerInstanceParams ext d of
        Inl p \<Rightarrow> Inl p
      | Inr reqParams \<Rightarrow>
          (case CreateLoadBalancerInstance conn reqParams of
             (resp, Some err) \<Rightarrow> Inr (d, Some err)
           | (None, None) \<Rightarrow> Inl NilDereference
           | (Some resp, None) \<Rightarrow>
               (case LoadBalancerInstanceList resp of
                  [] \<Rightarrow> Inl IndexOutOfRange
                | LoadBalancerInstance # _ \<Rightarrow>
                    (let d = d_SetId d (LoadBalancerInstanceNo LoadBalancerInstance);
                         w = waitForLoadBalancerInstance ext conn
                               (LoadBalancerInstanceNo LoadBalancerInstance) ''USED''
                               (DefaultCreateTimeout ext)
                     in case returned w of
                          Inl p \<Rightarrow> Inl p
                        | Inr (Some err) \<Rightarrow> Inr (d, Some err)
                        | Inr None \<Rightarrow> resourceNcloudLoadBalancerRead conn (polls w) d))))"

subsection \<open>Delete\<close>

definition logged_commonResponse :: "LoadBalancerInstanceList option \<Rightarrow> CommonResponse" where
  \<comment> \<open>the envelope handed to the logger: the zero value when the response pointer is nil\<close>
  "logged_commonResponse resp =
     (case resp of None \<Rightarrow> CommonResponse_zero | Some r \<Rightarrow> ListCommonResponse r)"

definition deleteLoadBalancerInstance :: "externals \<Rightarrow> Conn \<Rightarrow> string \<Rightarrow> panic + go_error option" where
  "deleteLoadBalancerInstance ext conn no =
     (let reqParams = \<lparr>DeleteLoadBalancerInstanceNoList = [no]\<rparr> in
      case DeleteLoadBalancerInstances conn reqParams of
        (resp, Some err) \<Rightarrow> Inr (Some err)
      | (resp, None) \<Rightarrow>
          (let commonResponse = logged_commonResponse resp
           in returned (waitForDeleteLoadBalancerInstance ext conn no)))"

definition resourceNcloudLoadBalancerDelete :: "externals \<Rightarrow> Conn \<Rightarrow> ResourceData \<Rightarrow> panic + go_error option" where
  "resourceNcloudLoadBalancerDelete ext conn d = deleteLoadBalancerInstance ext conn (rd_Id d)"

subsection \<open>The timeline of a wait\<close>

text \<open>
  When the goroutine issues its \<open>n\<close>-th poll and when that poll's reply arrives, should
  the loop get that far; both follow from the calls' durations and the sleep between polls.
\<close>

fun poll_issued_at :: "Conn \<Rightarrow> string \<Rightarrow> nat \<Rightarrow> nat" where
  "poll_issued_at conn no 0 = 0"
| "poll_issued_at conn no (Suc n) = poll_issued_at conn no n + call_took conn n no + sleep_ns"

definition reply_at :: "Conn \<Rightarrow> string \<Rightarrow> nat \<Rightarrow> nat" where
  "reply_at conn no n = poll_issued_at conn no n + call_took conn n no"

text \<open>What one poll of each wait can observe.\<close>

definition observes_other_status :: "Conn \<Rightarrow> string \<Rightarrow> string \<Rightarrow> nat \<Rightarrow> bool" where
  \<comment> \<open>poll \<open>n\<close> finds the instance, in a status other than the target\<close>
  "observes_other_status conn no status n =
     (case getLoadBalancerInstance conn n no of
        Inr (Some inst, None) \<Rightarrow> Code (LoadBalancerInstanceStatus inst) \<noteq> status
      | _ \<Rightarrow> False)"

definition observes_present :: "Conn \<Rightarrow> string \<Rightarrow> nat \<Rightarrow> bool" where
  \<comment> \<open>poll \<open>n\<close> finds the instance\<close>
  "observes_present conn no n =
     (case getLoadBalancerInstance conn n no of Inr (Some inst, None) \<Rightarrow> True | _ \<Rightarrow> False)"

definition observes_absent :: "Conn \<Rightarrow> string \<Rightarrow> nat \<Rightarrow> bool" where
  \<comment> \<open>poll \<open>n\<close> succeeds and does not find the instance\<close>
  "observes_absent conn no n = (getLoadBalancerInstance conn n no = Inr (None, None))"

subsection \<open>Example inputs\<close>

text \<open>
  A scripted connection: the create call returns one instance \<open>lb-1\<close> in status
  \<open>INIT\<close>, the delete call returns a nil response and no error, and the \<open>n\<close>-th list
  call answers \<open>script n\<close>. Every list call of the examples takes 100 ms.
\<close>

definition CommonCode_of :: "string \<Rightarrow> CommonCode" where
  "CommonCode_of c = \<lparr>Code = c, CodeName = c\<rparr>"

definition example_instance ::
  "string \<Rightarrow> string \<Rightarrow> LoadBalancerRule list \<Rightarrow> LoadBalancedServerInstance list \<Rightarrow> LoadBalancerInstance" where
  "example_instance no status rules servers =
     \<lparr>LoadBalancerInstanceNo = no, VirtualIP = ''10.0.0.1'', LoadBalancerName = ''web'',
      LoadBalancerAlgorithmType = CommonCode_of ''RR'', LoadBalancerDescription = [],
      CreateDate = ''2018-08-07'', DomainName = ''web.example'',
      InternetLineType = CommonCode_of ''PUBLC'', LoadBalancerInstanceStatusName = status,
      LoadBalancerInstanceStatus = CommonCode_of status,
      LoadBalancerInstanceOperation = CommonCode_of ''NULL'',
      NetworkUsageType = CommonCode_of ''PBLIP'', IsHTTPKeepAlive = False,
      ConnectionTimeout = 60, CertificateName = [],
      LoadBalancerRuleList = rules, LoadBalancedServerInstanceList = servers\<rparr>"

definition lb1 :: "string \<Rightarrow> LoadBalancerInstance" where
  "lb1 status = example_instance ''lb-1'' status [] []"

definition answer :: "LoadBalancerInstance list \<Rightarrow> list_reply" where
  "answer insts =
     \<lparr>took = 100000000,
      list_resp = Some \<lparr>ListCommonResponse = CommonResponse_zero, LoadBalancerInstanceList = insts\<rparr>,
      list_err = None\<rparr>"

definition failure :: "string \<Rightarrow> list_reply" where
  "failure m = \<lparr>took = 100000000, list_resp = None, list_err = Some (SdkError m)\<rparr>"

definition example_conn :: "(nat \<Rightarrow> list_reply) \<Rightarrow> Conn" where
  "example_conn script =
     \<lparr>CreateLoadBalancerInstance =
        (\<lambda>req. (Some \<lparr>ListCommonResponse = CommonResponse_zero,
                         LoadBalancerInstanceList = [lb1 ''INIT'']\<rparr>, None)),
      GetLoadBalancerInstanceList = (\<lambda>n req. script n),
      DeleteLoadBalancerInstances = (\<lambda>req. (None, None))\<rparr>"

definition always_used :: "nat \<Rightarrow> list_reply" where
  "always_used n = answer [lb1 ''USED'']"

definition always_init :: "nat \<Rightarrow> list_reply" where
  "always_init n = answer [lb1 ''INIT'']"

definition init_then_gone :: "nat \<Rightarrow> list_reply" where
  "init_then_gone n = (if n < 1 then answer [lb1 ''INIT''] else answer [])"

definition init_init_used :: "nat \<Rightarrow> list_reply" where
  "init_init_used n = (if n < 2 then answer [lb1 ''INIT''] else answer [lb1 ''USED''])"

definition twice_then_gone :: "nat \<Rightarrow> list_reply" where
  "twice_then_gone n = (if n < 2 then answer [lb1 ''USED''] else answer [])"

definition init_then_failure :: "nat \<Rightarrow> list_reply" where
  "init_then_failure n = (if n < 1 then answer [lb1 ''INIT''] else failure ''503'')"

fun example_StringList :: "tf_value list \<Rightarrow> panic + string list" where
  "example_StringList [] = Inr []"
| "example_StringList (v # vs) =
     (case as_string v of
        Inl p \<Rightarrow> Inl p
      | Inr x \<Rightarrow> (case example_StringList vs of Inl p \<Rightarrow> Inl p | Inr xs \<Rightarrow> Inr (x # xs)))"

definition example_ext :: externals where
  "example_ext =
     \<lparr>DefaultTimeout = 3, DefaultCreateTimeout = 5,
      StringList = example_StringList, select_takes_timer = False\<rparr>"

definition example_attrs :: "string \<Rightarrow> tf_value" where
  "example_attrs key =
     (if key = ''load_balancer_rule_list'' then
        VList [VMap [(''protocol_type_code'', VString ''HTTP''), (''load_balancer_port'', VInt 80),
                     (''server_port'', VInt 8080), (''l7_health_check_path'', VString ''/'')]]
      else if key = ''server_instance_no_list'' then VList [VString ''srv-7'']
      else VString [])"


definition example_plan :: ResourceData where
  \<comment> \<open>the resource data before its creation: no id yet\<close>
  "example_plan = \<lparr>rd_Id = [], rd_attrs = example_attrs\<rparr>"

definition created_nothing :: Conn where
  \<comment> \<open>a connection whose create call succeeds with an empty instance list\<close>
  "created_nothing =
     (example_conn always_init)
       \<lparr>CreateLoadBalancerInstance :=
          (\<lambda>req. (Some \<lparr>ListCommonResponse = CommonResponse_zero, LoadBalancerInstanceList = []\<rparr>, None))\<rparr>"

section \<open>Properties\<close>

subsection \<open>The wait loops along the timeline\<close>

declare poll_until.simps [simp del] poll_until_gone.simps [simp del]

lemma sleep_ns_eq: "sleep_ns = 1000000000"
  by (simp add: sleep_ns_def time_Second_def)

lemma fired_mono: "fired tie dl t \<Longrightarrow> t \<le> t' \<Longrightarrow> fired tie dl t'"
  by (auto simp: fired_def)

lemma issued_le_reply: "poll_issued_at conn no n \<le> reply_at conn no n"
  by (simp add: reply_at_def)

lemma reply_le_next: "reply_at conn no n \<le> reply_at conn no (Suc n)"
  by (simp add: reply_at_def)

text \<open>One turn of the create-oriented loop whose poll sees another status.\<close>

lemma other_status_step:
  assumes "observes_other_status conn no status n"
    and "\<not> fired tie dl (now + call_took conn n no)"
  shows "poll_until tie conn no status dl n now =
         poll_until tie conn no status dl (Suc n) (now + call_took conn n no + sleep_ns)"
proof -
  have "\<not> fired tie dl now"
    using assms(2) fired_mono [of tie dl now "now + call_took conn n no"] by auto
  with assms show ?thesis
    by (subst poll_until.simps)
       (auto simp: observes_other_status_def split: sum.splits option.splits prod.splits)
qed

lemma poll_until_reach:
  "(\<forall>i<k. observes_other_status conn no status i) \<Longrightarrow>
   \<not> fired tie dl (reply_at conn no k) \<Longrightarrow>
   poll_until tie conn no status dl 0 0 =
   poll_until tie conn no status dl k (poll_issued_at conn no k)"
proof (induction k)
  case 0
  then show ?case by simp
next
  case (Suc k)
  have nf: "\<not> fired tie dl (reply_at conn no k)"
    using Suc.prems(2) fired_mono [OF _ reply_le_next] by blast
  have "poll_until tie conn no status dl 0 0 =
        poll_until tie conn no status dl k (poll_issued_at conn no k)"
    using Suc.IH Suc.prems(1) nf by simp
  also have "\<dots> = poll_until tie conn no status dl (Suc k) (poll_issued_at conn no (Suc k))"
    using other_status_step [of conn no status k tie dl "poll_issued_at conn no k"]
      Suc.prems(1) nf by (simp add: reply_at_def)
  finally show ?case .
qed

text \<open>
  The first poll that does not see another status decides the wait, when its reply comes
  before the timer fires.
\<close>

lemma poll_until_decided:
  assumes "\<forall>i<k. observes_other_status conn no status i"
    and "\<not> fired tie dl (reply_at conn no k)"
    and "\<not> observes_other_status conn no status k"
  shows "poll_until tie conn no status dl 0 0 =
         sent (case getLoadBalancerInstance conn k no of
                 Inl p \<Rightarrow> Inl p
               | Inr (instance, err) \<Rightarrow> Inr err) k (reply_at conn no k)"
proof -
  have nf: "\<not> fired tie dl (poll_issued_at conn no k)"
    using assms(2) fired_mono [OF _ issued_le_reply] by blast
  have "poll_until tie conn no status dl 0 0 =
        poll_until tie conn no status dl k (poll_issued_at conn no k)"
    using assms(1,2) by (rule poll_until_reach)
  also have "\<dots> = sent (case getLoadBalancerInstance conn k no of
                 Inl p \<Rightarrow> Inl p
               | Inr (instance, err) \<Rightarrow> Inr err) k (reply_at conn no k)"
    using nf assms(2,3)
    by (subst poll_until.simps)
       (auto simp: observes_other_status_def reply_at_def split: sum.splits option.splits prod.splits)
  finally show ?thesis .
qed

text \<open>What the timer's branch of the select returns, and when.\<close>

lemma via_timer_returned:
  "via (poll_until tie conn no status dl n now) = FromTimer \<Longrightarrow>
   returned (poll_until tie conn no status dl n now) = Inr (Some (timeout_error no))"
proof (induction tie conn no status dl n now rule: poll_until.induct)
  case (1 tie conn no status deadline n now)
  show ?case
    using "1.prems" "1.IH"
    by (subst poll_until.simps, subst (asm) poll_until.simps)
       (auto simp: timed_out_def sent_def split: sum.splits option.splits prod.splits if_splits)
qed

lemma via_timer_finished:
  "via (poll_until tie conn no status dl n now) = FromTimer \<Longrightarrow>
   finished_at (poll_until tie conn no status dl n now) = dl"
proof (induction tie conn no status dl n now rule: poll_until.induct)
  case (1 tie conn no status deadline n now)
  show ?case
    using "1.prems" "1.IH"
    by (subst poll_until.simps, subst (asm) poll_until.simps)
       (auto simp: timed_out_def sent_def split: sum.splits option.splits prod.splits if_splits)
qed

text \<open>
  If every poll answered before the timer fires sees another status, the timer wins.
\<close>

lemma poll_until_never:
  "now = poll_issued_at conn no n \<Longrightarrow>
   (\<forall>i\<ge>n. \<not> fired tie dl (reply_at conn no i) \<longrightarrow> observes_other_status conn no status i) \<Longrightarrow>
   via (poll_until tie conn no status dl n now) = FromTimer"
proof (induction tie conn no status dl n now rule: poll_until.induct)
  case (1 tie conn no status deadline n now)
  show ?case
  proof (cases "fired tie deadline (now + call_took conn n no)")
    case True
    then show ?thesis
      by (subst poll_until.simps) (simp add: timed_out_def)
  next
    case False
    then have nf: "\<not> fired tie deadline now"
      using fired_mono [of tie deadline now "now + call_took conn n no"] by auto
    from False "1.prems" have obs: "observes_other_status conn no status n"
      by (simp add: reply_at_def)
    then obtain inst where g: "getLoadBalancerInstance conn n no = Inr (Some inst, None)"
      and c: "Code (LoadBalancerInstanceStatus inst) \<noteq> status"
      by (auto simp: observes_other_status_def split: sum.splits option.splits prod.splits)
    have "via (poll_until tie conn no status deadline (Suc n) (now + call_took conn n no + sleep_ns)) = FromTimer"
      using "1.IH" [OF nf False g refl refl refl c] "1.prems" by simp
    then show ?thesis
      using nf False g c other_status_step [OF obs False] by simp
  qed
qed

text \<open>The same facts for the delete-oriented loop.\<close>

lemma present_step:
  assumes "observes_present conn no n"
    and "\<not> fired tie dl (now + call_took conn n no)"
  shows "poll_until_gone tie conn no dl n now =
         poll_until_gone tie conn no dl (Suc n) (now + call_took conn n no + sleep_ns)"
proof -
  have "\<not> fired tie dl now"
    using assms(2) fired_mono [of tie dl now "now + call_took conn n no"] by auto
  with assms show ?thesis
    by (subst poll_until_gone.simps)
       (auto simp: observes_present_def split: sum.splits option.splits prod.splits)
qed

lemma poll_until_gone_reach:
  "(\<forall>i<k. observes_present conn no i) \<Longrightarrow>
   \<not> fired tie dl (reply_at conn no k) \<Longrightarrow>
   poll_until_gone tie conn no dl 0 0 = poll_until_gone tie conn no dl k (poll_issued_at conn no k)"
proof (induction k)
  case 0
  then show ?case by simp
next
  case (Suc k)
  have nf: "\<not> fired tie dl (reply_at conn no k)"
    using Suc.prems(2) fired_mono [OF _ reply_le_next] by blast
  have "poll_until_gone tie conn no dl 0 0 = poll_until_gone tie conn no dl k (poll_issued_at conn no k)"
    using Suc.IH Suc.prems(1) nf by simp
  also have "\<dots> = poll_until_gone tie conn no dl (Suc k) (poll_issued_at conn no (Suc k))"
    using present_step [of conn no k tie dl "poll_issued_at conn no k"]
      Suc.prems(1) nf by (simp add: reply_at_def)
  finally show ?case .
qed

lemma poll_until_gone_decided:
  assumes "\<forall>i<k. observes_present conn no i"
    and "\<not> fired tie dl (reply_at conn no k)"
    and "\<not> observes_present conn no k"
  shows "poll_until_gone tie conn no dl 0 0 =
         sent (case getLoadBalancerInstance conn k no of
                 Inl p \<Rightarrow> Inl p
               | Inr (instance, err) \<Rightarrow> Inr err) k (reply_at conn no k)"
proof -
  have nf: "\<not> fired tie dl (poll_issued_at conn no k)"
    using assms(2) fired_mono [OF _ issued_le_reply] by blast
  have "poll_until_gone tie conn no dl 0 0 = poll_until_gone tie conn no dl k (poll_issued_at conn no k)"
    using assms(1,2) by (rule poll_until_gone_reach)
  also have "\<dots> = sent (case getLoadBalancerInstance conn k no of
                 Inl p \<Rightarrow> Inl p
               | Inr (instance, err) \<Rightarrow> Inr err) k (reply_at conn no k)"
    using nf assms(2,3)
    by (subst poll_until_gone.simps)
       (auto simp: observes_present_def reply_at_def split: sum.splits option.splits prod.splits)
  finally show ?thesis .
qed

lemma gone_via_timer_finished:
  "via (poll_until_gone tie conn no dl n now) = FromTimer \<Longrightarrow>
   finished_at (poll_until_gone tie conn no dl n now) = dl"
proof (induction tie conn no dl n now rule: poll_until_gone.induct)
  case (1 tie conn no deadline n now)
  show ?case
    using "1.prems" "1.IH"
    by (subst poll_until_gone.simps, subst (asm) poll_until_gone.simps)
       (auto simp: timed_out_def sent_def split: sum.splits option.splits prod.splits if_splits)
qed

lemma gone_via_timer_returned:
  "via (poll_until_gone tie conn no dl n now) = FromTimer \<Longrightarrow>
   returned (poll_until_gone tie conn no dl n now) = Inr (Some (timeout_error no))"
proof (induction tie conn no dl n now rule: poll_until_gone.induct)
  case (1 tie conn no deadline n now)
  show ?case
    using "1.prems" "1.IH"
    by (subst poll_until_gone.simps, subst (asm) poll_until_gone.simps)
       (auto simp: timed_out_def sent_def split: sum.splits option.splits prod.splits if_splits)
qed

lemma poll_until_gone_never:
  "now = poll_issued_at conn no n \<Longrightarrow>
   (\<forall>i\<ge>n. \<not> fired tie dl (reply_at conn no i) \<longrightarrow> observes_present conn no i) \<Longrightarrow>
   via (poll_until_gone tie conn no dl n now) = FromTimer"
proof (induction tie conn no dl n now rule: poll_until_gone.induct)
  case (1 tie conn no deadline n now)
  show ?case
  proof (cases "fired tie deadline (now + call_took conn n no)")
    case True
    then show ?thesis
      by (subst poll_until_gone.simps) (simp add: timed_out_def)
  next
    case False
    then have nf: "\<not> fired tie deadline now"
      using fired_mono [of tie deadline now "now + call_took conn n no"] by auto
    from False "1.prems" have obs: "observes_present conn no n"
      by (simp add: reply_at_def)
    then obtain inst where g: "getLoadBalancerInstance conn n no = Inr (Some inst, None)"
      by (auto simp: observes_present_def split: sum.splits option.splits prod.splits)
    have "via (poll_until_gone tie conn no deadline (Suc n) (now + call_took conn n no + sleep_ns)) = FromTimer"
      using "1.IH" [OF nf False g refl refl refl] "1.prems" by simp
    then show ?thesis
      using present_step [OF obs False] by simp
  qed
qed

subsection \<open>The example connection\<close>

lemma example_get [simp]:
  "getLoadBalancerInstance (example_conn script) n no =
     (case list_err (script n) of
        Some err \<Rightarrow> Inr (None, Some err)
      | None \<Rightarrow> (case list_resp (script n) of
                   None \<Rightarrow> Inl NilDereference
                 | Some resp \<Rightarrow> Inr (find_instance no (LoadBalancerInstanceList resp), None)))"
  by (simp add: getLoadBalancerInstance_def example_conn_def Let_def)

lemma example_took [simp]: "call_took (example_conn script) n no = took (script n)"
  by (simp add: call_took_def example_conn_def)

lemma reply_at_example_0 [simp]: "reply_at (example_conn script) no 0 = took (script 0)"
  by (simp add: reply_at_def)

lemma reply_at_example_Suc [simp]:
  "reply_at (example_conn script) no (Suc n) =
   reply_at (example_conn script) no n + sleep_ns + took (script (Suc n))"
  by (simp add: reply_at_def)

lemma timer_after_5 [simp]: "timer_after (time_Second * 5) = 5000000000"
  by (simp add: timer_after_def time_Second_def)

lemma timer_after_3 [simp]: "timer_after (time_Second * 3) = 3000000000"
  by (simp add: timer_after_def time_Second_def)

lemma always_init_other_status:
  "observes_other_status (example_conn always_init) ''lb-1'' ''USED'' n"
  by (simp add: observes_other_status_def always_init_def answer_def lb1_def
      example_instance_def CommonCode_of_def)

lemma always_init_present: "observes_present (example_conn always_init) ''lb-1'' n"
  by (simp add: observes_present_def always_init_def answer_def lb1_def example_instance_def)

subsection \<open>Absence during a create-oriented wait\<close>

text \<open>
  C1 (amended). In a create-oriented wait, when the polls before the \<open>k\<close>-th all find the
  instance in a status other than the target, the \<open>k\<close>-th poll succeeds without finding the
  instance, and its reply comes before the timer fires, the wait returns success (a nil
  error) at that reply, after \<open>k + 1\<close> polls: absence ends the create-oriented wait the
  way it ends the delete-oriented one.
\<close>

theorem create_wait_absent_is_success:
  assumes "\<forall>i<k. observes_other_status conn no status i"
    and "observes_absent conn no k"
    and "\<not> fired (select_takes_timer ext) (timer_after (time_Second * timeout)) (reply_at conn no k)"
  shows "waitForLoadBalancerInstance ext conn no status timeout = sent (Inr None) k (reply_at conn no k)"
proof -
  have "\<not> observes_other_status conn no status k"
    using assms(2) by (simp add: observes_other_status_def observes_absent_def)
  with assms show ?thesis
    unfolding waitForLoadBalancerInstance_def
    by (simp add: poll_until_decided observes_absent_def)
qed

text \<open>
  The instance is seen once in status \<open>INIT\<close> and is gone at the second poll: the wait for
  \<open>USED\<close> returns nil after two polls and one sleep, 1.2 seconds into a 5 second timeout.
\<close>

theorem create_wait_absent_is_success_witness:
  "observes_other_status (example_conn init_then_gone) ''lb-1'' ''USED'' 0
   \<and> observes_absent (example_conn init_then_gone) ''lb-1'' 1
   \<and> \<not> fired (select_takes_timer example_ext) (timer_after (time_Second * 5))
          (reply_at (example_conn init_then_gone) ''lb-1'' 1)
   \<and> waitForLoadBalancerInstance example_ext (example_conn init_then_gone) ''lb-1'' ''USED'' 5
       = \<lparr>returned = Inr None, via = FromPoller, polls = 2, sleeps = 1, finished_at = 1200000000\<rparr>"
proof -
  have h1: "\<forall>i<1. observes_other_status (example_conn init_then_gone) ''lb-1'' ''USED'' i"
    by (simp add: observes_other_status_def init_then_gone_def answer_def lb1_def
        example_instance_def CommonCode_of_def)
  have h2: "observes_absent (example_conn init_then_gone) ''lb-1'' 1"
    by (simp add: observes_absent_def init_then_gone_def answer_def)
  have h3: "\<not> fired (select_takes_timer example_ext) (timer_after (time_Second * 5))
          (reply_at (example_conn init_then_gone) ''lb-1'' 1)"
    by (simp add: fired_def example_ext_def init_then_gone_def answer_def sleep_ns_eq)
  show ?thesis
    using h1 h2 h3 create_wait_absent_is_success [OF h1 h2 h3]
    by (simp add: sent_def init_then_gone_def answer_def sleep_ns_eq)
qed

text \<open>
  The claim as stated fails on the same input, evaluated step by step: the create-oriented
  wait returns success, not failure, when the instance disappears before \<open>USED\<close> is seen.
\<close>

theorem create_wait_absent_counterexample:
  "getLoadBalancerInstance (example_conn init_then_gone) 0 ''lb-1'' = Inr (Some (lb1 ''INIT''), None)
   \<and> getLoadBalancerInstance (example_conn init_then_gone) 1 ''lb-1'' = Inr (None, None)
   \<and> returned (waitForLoadBalancerInstance example_ext (example_conn init_then_gone) ''lb-1'' ''USED'' 5)
       = Inr None"
  by (simp add: waitForLoadBalancerInstance_def example_ext_def poll_until.simps fired_def
      init_then_gone_def answer_def lb1_def example_instance_def CommonCode_of_def sent_def sleep_ns_eq)

subsection \<open>The timeout error\<close>

text \<open>
  C2 (amended). Every create-oriented wait that ends by its timer returns an error made by
  \<^verbatim>\<open>fmt.Errorf\<close> from the resource id alone: its message contains the id, and the
  target status has no part in it.
\<close>

theorem timeout_message_names_id:
  assumes "via (waitForLoadBalancerInstance ext conn no status timeout) = FromTimer"
  shows "returned (waitForLoadBalancerInstance ext conn no status timeout) = Inr (Some (timeout_error no))
       \<and> sublist no (Error (timeout_error no))"
proof
  show "returned (waitForLoadBalancerInstance ext conn no status timeout) = Inr (Some (timeout_error no))"
    using assms via_timer_returned [of "select_takes_timer ext" conn no status _ 0 0]
    by (simp add: waitForLoadBalancerInstance_def)
  have "sublist no (''TIMEOUT : delete load balancer instance ['' @ no @ ''] '')"
    by (rule sublist_appendI)
  then show "sublist no (Error (timeout_error no))"
    by (simp only: timeout_error_def Error.simps)
qed

theorem timeout_message_names_id_witness:
  "via (waitForLoadBalancerInstance example_ext (example_conn always_init) ''lb-1'' ''USED'' 5) = FromTimer
   \<and> returned (waitForLoadBalancerInstance example_ext (example_conn always_init) ''lb-1'' ''USED'' 5)
       = Inr (Some (timeout_error ''lb-1''))
   \<and> sublist ''lb-1'' (Error (timeout_error ''lb-1''))"
proof -
  have "via (poll_until False (example_conn always_init) ''lb-1'' ''USED'' 5000000000 0 0) = FromTimer"
    by (intro poll_until_never) (simp_all add: always_init_other_status)
  then have h: "via (waitForLoadBalancerInstance example_ext (example_conn always_init) ''lb-1'' ''USED'' 5) = FromTimer"
    by (simp add: waitForLoadBalancerInstance_def example_ext_def)
  show ?thesis
    using h timeout_message_names_id [OF h] by simp
qed

text \<open>
  The claim as stated fails: waiting 5 seconds for \<open>USED\<close> on an instance that stays in
  \<open>INIT\<close> ends with a message in which the target status does not occur.
\<close>

theorem timeout_message_counterexample:
  "via (waitForLoadBalancerInstance example_ext (example_conn always_init) ''lb-1'' ''USED'' 5) = FromTimer
   \<and> returned (waitForLoadBalancerInstance example_ext (example_conn always_init) ''lb-1'' ''USED'' 5)
     = Inr (Some (Errorf ''TIMEOUT : delete load balancer instance [lb-1] ''))
   \<and> \<not> sublist ''USED'' ''TIMEOUT : delete load balancer instance [lb-1] ''"
proof -
  have v: "via (poll_until False (example_conn always_init) ''lb-1'' ''USED'' 5000000000 0 0) = FromTimer"
    by (intro poll_until_never) (simp_all add: always_init_other_status)
  then have "returned (poll_until False (example_conn always_init) ''lb-1'' ''USED'' 5000000000 0 0)
      = Inr (Some (timeout_error ''lb-1''))"
    by (rule via_timer_returned)
  moreover note v
  moreover have "\<not> sublist ''USED'' ''TIMEOUT : delete load balancer instance [lb-1] ''"
    by code_simp
  ultimately show ?thesis
    by (simp add: waitForLoadBalancerInstance_def example_ext_def timeout_error_def)
qed

text \<open>
  C4. If every poll of a create-oriented wait whose reply comes before the timer fires finds
  the instance in a status other than the target, the wait ends by its timer, at the
  deadline, and returns the timeout error, whose message contains the resource id.
\<close>

theorem never_target_times_out:
  assumes "\<forall>n. \<not> fired (select_takes_timer ext) (timer_after (time_Second * timeout)) (reply_at conn no n)
               \<longrightarrow> observes_other_status conn no status n"
  shows "via (waitForLoadBalancerInstance ext conn no status timeout) = FromTimer
       \<and> returned (waitForLoadBalancerInstance ext conn no status timeout) = Inr (Some (timeout_error no))
       \<and> finished_at (waitForLoadBalancerInstance ext conn no status timeout) = timer_after (time_Second * timeout)
       \<and> sublist no (Error (timeout_error no))"
proof -
  let ?w = "poll_until (select_takes_timer ext) conn no status (timer_after (time_Second * timeout)) 0 0"
  have v: "via ?w = FromTimer"
    using assms by (intro poll_until_never) simp_all
  have "sublist no (''TIMEOUT : delete load balancer instance ['' @ no @ ''] '')"
    by (rule sublist_appendI)
  then have "sublist no (Error (timeout_error no))"
    by (simp only: timeout_error_def Error.simps)
  with v via_timer_returned [OF v] via_timer_finished [OF v] show ?thesis
    by (simp only: waitForLoadBalancerInstance_def simp_thms)
qed

theorem never_target_times_out_witness:
  "(\<forall>n. observes_other_status (example_conn always_init) ''lb-1'' ''USED'' n)
   \<and> returned (waitForLoadBalancerInstance example_ext (example_conn always_init) ''lb-1'' ''USED'' 5)
       = Inr (Some (Errorf ''TIMEOUT : delete load balancer instance [lb-1] ''))
   \<and> finished_at (waitForLoadBalancerInstance example_ext (example_conn always_init) ''lb-1'' ''USED'' 5)
       = 5000000000"
proof -
  have h: "\<forall>n. \<not> fired (select_takes_timer example_ext) (timer_after (time_Second * 5))
            (reply_at (example_conn always_init) ''lb-1'' n)
        \<longrightarrow> observes_other_status (example_conn always_init) ''lb-1'' ''USED'' n"
    by (simp add: always_init_other_status)
  show ?thesis
    using never_target_times_out [OF h]
    by (simp add: timeout_error_def always_init_other_status)
qed

subsection \<open>Success at the first poll\<close>

text \<open>
  C5. If the first poll of a create-oriented wait finds the instance in the target status
  (and its reply comes before the timer fires), the wait returns success at that reply,
  after one poll and no sleep.
\<close>

theorem first_poll_on_target_returns_at_once:
  assumes "getLoadBalancerInstance conn 0 no = Inr (Some inst, None)"
    and "Code (LoadBalancerInstanceStatus inst) = status"
    and "\<not> fired (select_takes_timer ext) (timer_after (time_Second * timeout)) (call_took conn 0 no)"
  shows "waitForLoadBalancerInstance ext conn no status timeout =
           \<lparr>returned = Inr None, via = FromPoller, polls = 1, sleeps = 0,
            finished_at = call_took conn 0 no\<rparr>"
proof -
  have "\<not> observes_other_status conn no status 0"
    using assms(1,2) by (simp add: observes_other_status_def)
  moreover have "reply_at conn no 0 = call_took conn 0 no"
    by (simp add: reply_at_def)
  ultimately show ?thesis
    using assms poll_until_decided [of 0 conn no status "select_takes_timer ext"
        "timer_after (time_Second * timeout)"]
    by (simp add: waitForLoadBalancerInstance_def sent_def)
qed

theorem first_poll_on_target_returns_at_once_witness:
  "getLoadBalancerInstance (example_conn always_used) 0 ''lb-1'' = Inr (Some (lb1 ''USED''), None)
   \<and> Code (LoadBalancerInstanceStatus (lb1 ''USED'')) = ''USED''
   \<and> \<not> fired (select_takes_timer example_ext) (timer_after (time_Second * 5))
          (call_took (example_conn always_used) 0 ''lb-1'')
   \<and> waitForLoadBalancerInstance example_ext (example_conn always_used) ''lb-1'' ''USED'' 5
       = \<lparr>returned = Inr None, via = FromPoller, polls = 1, sleeps = 0, finished_at = 100000000\<rparr>"
proof -
  have h1: "getLoadBalancerInstance (example_conn always_used) 0 ''lb-1'' = Inr (Some (lb1 ''USED''), None)"
    by (simp add: always_used_def answer_def lb1_def example_instance_def)
  have h2: "Code (LoadBalancerInstanceStatus (lb1 ''USED'')) = ''USED''"
    by (simp add: lb1_def example_instance_def CommonCode_of_def)
  have h3: "\<not> fired (select_takes_timer example_ext) (timer_after (time_Second * 5))
          (call_took (example_conn always_used) 0 ''lb-1'')"
    by (simp add: fired_def example_ext_def always_used_def answer_def)
  show ?thesis
    using h1 h2 h3 first_poll_on_target_returns_at_once [OF h1 h2 h3]
    by (simp add: always_used_def answer_def)
qed

subsection \<open>Not found is not an error\<close>

text \<open>
  C3. When the list call returns a response and no error, and no instance of the response
  carries the requested number, getLoadBalancerInstance returns a nil instance and a nil
  error.
\<close>

theorem lookup_of_unlisted_id_is_absent:
  assumes "list_err (GetLoadBalancerInstanceList conn n \<lparr>LoadBalancerInstanceNoList = [no]\<rparr>) = None"
    and "list_resp (GetLoadBalancerInstanceList conn n \<lparr>LoadBalancerInstanceNoList = [no]\<rparr>) = Some resp"
    and "no \<notin> LoadBalancerInstanceNo ` set (LoadBalancerInstanceList resp)"
  shows "getLoadBalancerInstance conn n no = Inr (None, None)"
proof -
  have "find_instance no xs = None" if "no \<notin> LoadBalancerInstanceNo ` set xs" for xs
    using that by (induction xs) auto
  with assms show ?thesis
    by (simp add: getLoadBalancerInstance_def)
qed

theorem lookup_of_unlisted_id_is_absent_witness:
  "list_err (GetLoadBalancerInstanceList (example_conn always_init) 0 \<lparr>LoadBalancerInstanceNoList = [''lb-2'']\<rparr>) = None
   \<and> list_resp (GetLoadBalancerInstanceList (example_conn always_init) 0 \<lparr>LoadBalancerInstanceNoList = [''lb-2'']\<rparr>)
       = Some \<lparr>ListCommonResponse = CommonResponse_zero, LoadBalancerInstanceList = [lb1 ''INIT'']\<rparr>
   \<and> ''lb-2'' \<notin> LoadBalancerInstanceNo ` set [lb1 ''INIT'']
   \<and> getLoadBalancerInstance (example_conn always_init) 0 ''lb-2'' = Inr (None, None)"
proof -
  let ?r = "\<lparr>ListCommonResponse = CommonResponse_zero, LoadBalancerInstanceList = [lb1 ''INIT'']\<rparr>"
  have h1: "list_err (GetLoadBalancerInstanceList (example_conn always_init) 0 \<lparr>LoadBalancerInstanceNoList = [''lb-2'']\<rparr>) = None"
    by (simp add: example_conn_def always_init_def answer_def)
  have h2: "list_resp (GetLoadBalancerInstanceList (example_conn always_init) 0 \<lparr>LoadBalancerInstanceNoList = [''lb-2'']\<rparr>) = Some ?r"
    by (simp add: example_conn_def always_init_def answer_def)
  have h3: "''lb-2'' \<notin> LoadBalancerInstanceNo ` set (LoadBalancerInstanceList ?r)"
    by (simp add: lb1_def example_instance_def)
  show ?thesis
    using h1 h2 h3 lookup_of_unlisted_id_is_absent [OF h1 h2 h3] by simp
qed

subsection \<open>An error of a poll\<close>

text \<open>
  C8. In either wait, when the \<open>k\<close>-th poll returns an error (the earlier polls having
  kept the loop going, and the reply coming before the timer fires), the wait returns that
  error at that reply: \<open>k + 1\<close> polls have been issued, the goroutine has sent its result
  and ended, and no further poll follows.
\<close>

theorem poll_error_ends_wait:
  "(getLoadBalancerInstance conn k no = Inr (x, Some err)
      \<and> (\<forall>i<k. observes_other_status conn no status i)
      \<and> \<not> fired (select_takes_timer ext) (timer_after (time_Second * timeout)) (reply_at conn no k)
    \<longrightarrow> waitForLoadBalancerInstance ext conn no status timeout =
          \<lparr>returned = Inr (Some err), via = FromPoller, polls = Suc k, sleeps = k,
           finished_at = reply_at conn no k\<rparr>)
   \<and> (getLoadBalancerInstance conn k no = Inr (x, Some err)
      \<and> (\<forall>i<k. observes_present conn no i)
      \<and> \<not> fired (select_takes_timer ext) (timer_after (time_Second * DefaultTimeout ext)) (reply_at conn no k)
    \<longrightarrow> waitForDeleteLoadBalancerInstance ext conn no =
          \<lparr>returned = Inr (Some err), via = FromPoller, polls = Suc k, sleeps = k,
           finished_at = reply_at conn no k\<rparr>)"
proof (intro conjI impI; elim conjE)
  assume g: "getLoadBalancerInstance conn k no = Inr (x, Some err)"
    and a: "\<forall>i<k. observes_other_status conn no status i"
    and f: "\<not> fired (select_takes_timer ext) (timer_after (time_Second * timeout)) (reply_at conn no k)"
  have "\<not> observes_other_status conn no status k"
    using g by (simp add: observes_other_status_def split: option.splits)
  with a g f show "waitForLoadBalancerInstance ext conn no status timeout =
      \<lparr>returned = Inr (Some err), via = FromPoller, polls = Suc k, sleeps = k,
       finished_at = reply_at conn no k\<rparr>"
    by (simp add: waitForLoadBalancerInstance_def poll_until_decided sent_def)
next
  assume g: "getLoadBalancerInstance conn k no = Inr (x, Some err)"
    and a: "\<forall>i<k. observes_present conn no i"
    and f: "\<not> fired (select_takes_timer ext) (timer_after (time_Second * DefaultTimeout ext)) (reply_at conn no k)"
  have "\<not> observes_present conn no k"
    using g by (simp add: observes_present_def split: option.splits)
  with a g f show "waitForDeleteLoadBalancerInstance ext conn no =
      \<lparr>returned = Inr (Some err), via = FromPoller, polls = Suc k, sleeps = k,
       finished_at = reply_at conn no k\<rparr>"
    by (simp add: waitForDeleteLoadBalancerInstance_def poll_until_gone_decided sent_def)
qed

theorem poll_error_ends_wait_witness:
  "getLoadBalancerInstance (example_conn init_then_failure) 1 ''lb-1'' = Inr (None, Some (SdkError ''503''))
   \<and> observes_other_status (example_conn init_then_failure) ''lb-1'' ''USED'' 0
   \<and> observes_present (example_conn init_then_failure) ''lb-1'' 0
   \<and> waitForLoadBalancerInstance example_ext (example_conn init_then_failure) ''lb-1'' ''USED'' 5 =
        \<lparr>returned = Inr (Some (SdkError ''503'')), via = FromPoller, polls = 2, sleeps = 1,
         finished_at = 1200000000\<rparr>
   \<and> waitForDeleteLoadBalancerInstance example_ext (example_conn init_then_failure) ''lb-1'' =
        \<lparr>returned = Inr (Some (SdkError ''503'')), via = FromPoller, polls = 2, sleeps = 1,
         finished_at = 1200000000\<rparr>"
proof -
  let ?c = "example_conn init_then_failure"
  have h1: "getLoadBalancerInstance ?c 1 ''lb-1'' = Inr (None, Some (SdkError ''503''))"
    by (simp add: init_then_failure_def failure_def)
  have r: "reply_at ?c ''lb-1'' 1 = 1200000000"
    by (simp add: init_then_failure_def answer_def failure_def sleep_ns_eq)
  have h2: "\<not> fired (select_takes_timer example_ext) (timer_after (time_Second * 5)) (reply_at ?c ''lb-1'' 1)"
    unfolding r by (simp add: fired_def example_ext_def)
  have h3: "\<not> fired (select_takes_timer example_ext) (timer_after (time_Second * DefaultTimeout example_ext))
              (reply_at ?c ''lb-1'' 1)"
    unfolding r by (simp add: fired_def example_ext_def)
  have o1: "observes_other_status ?c ''lb-1'' ''USED'' 0"
    by (simp add: observes_other_status_def init_then_failure_def answer_def lb1_def
        example_instance_def CommonCode_of_def)
  have o2: "observes_present ?c ''lb-1'' 0"
    by (simp add: observes_present_def init_then_failure_def answer_def lb1_def
        example_instance_def)
  show ?thesis
    using h1 h2 h3 o1 o2 r
      poll_error_ends_wait [of ?c 1 "''lb-1''" None "SdkError ''503''" "''USED''" example_ext 5]
    by simp
qed

subsection \<open>Delete\<close>

text \<open>
  C6. When the delete call returns no error, deleteLoadBalancerInstance returns what its
  convergence wait returns, whatever the response pointer of the delete call is (nil
  included): the wait is always run. When the polls before the \<open>k\<close>-th find the instance
  and the \<open>k\<close>-th reports it absent before the timer fires, that wait sends nil at that
  reply, after \<open>k + 1\<close> polls, and so Delete succeeds.
\<close>

theorem delete_succeeds_once_absent:
  "(DeleteLoadBalancerInstances conn \<lparr>DeleteLoadBalancerInstanceNoList = [no]\<rparr> = (resp, None)
    \<longrightarrow> deleteLoadBalancerInstance ext conn no = returned (waitForDeleteLoadBalancerInstance ext conn no))
   \<and> ((\<forall>i<k. observes_present conn no i)
      \<and> observes_absent conn no k
      \<and> \<not> fired (select_takes_timer ext) (timer_after (time_Second * DefaultTimeout ext)) (reply_at conn no k)
    \<longrightarrow> waitForDeleteLoadBalancerInstance ext conn no = sent (Inr None) k (reply_at conn no k))
   \<and> (DeleteLoadBalancerInstances conn \<lparr>DeleteLoadBalancerInstanceNoList = [no]\<rparr> = (resp, None)
      \<and> (\<forall>i<k. observes_present conn no i)
      \<and> observes_absent conn no k
      \<and> \<not> fired (select_takes_timer ext) (timer_after (time_Second * DefaultTimeout ext)) (reply_at conn no k)
    \<longrightarrow> deleteLoadBalancerInstance ext conn no = Inr None)"
proof -
  have a: "deleteLoadBalancerInstance ext conn no = returned (waitForDeleteLoadBalancerInstance ext conn no)"
    if "DeleteLoadBalancerInstances conn \<lparr>DeleteLoadBalancerInstanceNoList = [no]\<rparr> = (resp, None)"
    using that by (simp add: deleteLoadBalancerInstance_def)
  have b: "waitForDeleteLoadBalancerInstance ext conn no = sent (Inr None) k (reply_at conn no k)"
    if p: "\<forall>i<k. observes_present conn no i" and g: "observes_absent conn no k"
      and f: "\<not> fired (select_takes_timer ext) (timer_after (time_Second * DefaultTimeout ext)) (reply_at conn no k)"
  proof -
    have "\<not> observes_present conn no k"
      using g by (simp add: observes_present_def observes_absent_def)
    with p g f show ?thesis
      by (simp add: waitForDeleteLoadBalancerInstance_def poll_until_gone_decided observes_absent_def)
  qed
  have c: "deleteLoadBalancerInstance ext conn no = Inr None"
    if "DeleteLoadBalancerInstances conn \<lparr>DeleteLoadBalancerInstanceNoList = [no]\<rparr> = (resp, None)"
      and "\<forall>i<k. observes_present conn no i" and "observes_absent conn no k"
      and "\<not> fired (select_takes_timer ext) (timer_after (time_Second * DefaultTimeout ext)) (reply_at conn no k)"
    using a [OF that(1)] b [OF that(2,3,4)] by (simp add: sent_def)
  from a b c show ?thesis
    by blast
qed

text \<open>
  With a nil response from the delete call: the instance is found twice and is gone at the
  third poll, and Delete returns nil after three polls; on an instance that never goes away
  the same nil response does not end Delete early, which returns the timeout error.
\<close>

theorem delete_succeeds_once_absent_witness:
  "DeleteLoadBalancerInstances (example_conn twice_then_gone) \<lparr>DeleteLoadBalancerInstanceNoList = [''lb-1'']\<rparr>
     = (None, None)
   \<and> observes_present (example_conn twice_then_gone) ''lb-1'' 0
   \<and> observes_present (example_conn twice_then_gone) ''lb-1'' 1
   \<and> observes_absent (example_conn twice_then_gone) ''lb-1'' 2
   \<and> waitForDeleteLoadBalancerInstance example_ext (example_conn twice_then_gone) ''lb-1''
       = \<lparr>returned = Inr None, via = FromPoller, polls = 3, sleeps = 2, finished_at = 2300000000\<rparr>
   \<and> deleteLoadBalancerInstance example_ext (example_conn twice_then_gone) ''lb-1'' = Inr None
   \<and> DeleteLoadBalancerInstances (example_conn always_init) \<lparr>DeleteLoadBalancerInstanceNoList = [''lb-1'']\<rparr>
       = (None, None)
   \<and> deleteLoadBalancerInstance example_ext (example_conn always_init) ''lb-1''
       = Inr (Some (timeout_error ''lb-1''))"
proof -
  let ?c = "example_conn twice_then_gone"
  note t = delete_succeeds_once_absent
  have h1: "DeleteLoadBalancerInstances ?c \<lparr>DeleteLoadBalancerInstanceNoList = [''lb-1'']\<rparr> = (None, None)"
    by (simp add: example_conn_def)
  have p: "observes_present ?c ''lb-1'' i" if "i < 2" for i
    using that by (simp add: observes_present_def twice_then_gone_def answer_def lb1_def example_instance_def)
  then have h2: "\<forall>i<2. observes_present ?c ''lb-1'' i"
    by simp
  have h3: "observes_absent ?c ''lb-1'' 2"
    by (simp add: observes_absent_def twice_then_gone_def answer_def)
  have r: "reply_at ?c ''lb-1'' 2 = 2300000000"
    by (simp add: twice_then_gone_def answer_def sleep_ns_eq numeral_2_eq_2)
  have h4: "\<not> fired (select_takes_timer example_ext) (timer_after (time_Second * DefaultTimeout example_ext))
              (reply_at ?c ''lb-1'' 2)"
    unfolding r by (simp add: fired_def example_ext_def)
  have w: "waitForDeleteLoadBalancerInstance example_ext ?c ''lb-1''
       = \<lparr>returned = Inr None, via = FromPoller, polls = 3, sleeps = 2, finished_at = 2300000000\<rparr>"
    using h2 h3 h4 r
      t [where conn = ?c and no = "''lb-1''" and k = 2 and ext = example_ext]
    by (simp add: sent_def)
  have d: "deleteLoadBalancerInstance example_ext ?c ''lb-1'' = Inr None"
    using h1 h2 h3 h4
      t [where conn = ?c and no = "''lb-1''" and k = 2 and ext = example_ext and resp = None]
    by blast
  have g1: "DeleteLoadBalancerInstances (example_conn always_init) \<lparr>DeleteLoadBalancerInstanceNoList = [''lb-1'']\<rparr>
       = (None, None)"
    by (simp add: example_conn_def)
  have "via (poll_until_gone False (example_conn always_init) ''lb-1'' 3000000000 0 0) = FromTimer"
    by (intro poll_until_gone_never) (simp_all add: always_init_present)
  then have "returned (waitForDeleteLoadBalancerInstance example_ext (example_conn always_init) ''lb-1'')
       = Inr (Some (timeout_error ''lb-1''))"
    using gone_via_timer_returned [of False "example_conn always_init" "''lb-1''" 3000000000 0 0]
    by (simp add: waitForDeleteLoadBalancerInstance_def example_ext_def)
  then have g2: "deleteLoadBalancerInstance example_ext (example_conn always_init) ''lb-1''
       = Inr (Some (timeout_error ''lb-1''))"
    using g1 t [where conn = "example_conn always_init" and no = "''lb-1''" and ext = example_ext and resp = None]
    by simp
  from h1 p [of 0] p [of 1] h3 w d g1 g2 show ?thesis
    by simp
qed

text \<open>
  C7. The delete-oriented wait sets its timer from \<^verbatim>\<open>DefaultTimeout\<close>: changing
  \<^verbatim>\<open>DefaultCreateTimeout\<close> does not change its outcome, and when it ends by its timer
  it ends \<^verbatim>\<open>time.Second * DefaultTimeout\<close> after it began.
\<close>

theorem delete_wait_uses_DefaultTimeout:
  "waitForDeleteLoadBalancerInstance (ext\<lparr>DefaultCreateTimeout := t\<rparr>) conn no
     = waitForDeleteLoadBalancerInstance ext conn no
   \<and> (via (waitForDeleteLoadBalancerInstance ext conn no) = FromTimer \<longrightarrow>
        finished_at (waitForDeleteLoadBalancerInstance ext conn no)
          = timer_after (time_Second * DefaultTimeout ext))"
  by (simp add: waitForDeleteLoadBalancerInstance_def gone_via_timer_finished)

theorem delete_wait_uses_DefaultTimeout_witness:
  "via (waitForDeleteLoadBalancerInstance example_ext (example_conn always_init) ''lb-1'') = FromTimer
   \<and> finished_at (waitForDeleteLoadBalancerInstance example_ext (example_conn always_init) ''lb-1'')
        = 3000000000
   \<and> waitForDeleteLoadBalancerInstance (example_ext\<lparr>DefaultCreateTimeout := 3600\<rparr>)
          (example_conn always_init) ''lb-1''
        = waitForDeleteLoadBalancerInstance example_ext (example_conn always_init) ''lb-1''"
proof -
  have "via (poll_until_gone False (example_conn always_init) ''lb-1'' 3000000000 0 0) = FromTimer"
    by (intro poll_until_gone_never) (simp_all add: always_init_present)
  then have h: "via (waitForDeleteLoadBalancerInstance example_ext (example_conn always_init) ''lb-1'') = FromTimer"
    by (simp add: waitForDeleteLoadBalancerInstance_def example_ext_def)
  show ?thesis
    using h delete_wait_uses_DefaultTimeout
        [where ext = example_ext and t = 3600 and conn = "example_conn always_init" and no = "''lb-1''"]
    by (simp add: example_ext_def)
qed

subsection \<open>Create and Read on the lists of a response\<close>

lemma d_Get_d_Set [simp]: "d_Get (d_Set d k v) k' = (if k' = k then v else d_Get d k')"
  by (simp add: d_Get_def d_Set_def)

lemma rd_Id_d_Set [simp]: "rd_Id (d_Set d k v) = rd_Id d"
  by (simp add: d_Set_def)

lemma rd_Id_set_scalars [simp]: "rd_Id (set_scalars d lb) = rd_Id d"
  by (simp add: set_scalars_def Let_def)

lemma set_scalars_rule_list [simp]:
  "d_Get (set_scalars d lb) ''load_balancer_rule_list'' = d_Get d ''load_balancer_rule_list''"
  by (simp add: set_scalars_def Let_def)

lemma rd_Id_set_rule_list [simp]: "rd_Id (set_rule_list d lb) = rd_Id d"
  by (simp add: set_rule_list_def)

lemma Read_keeps_Id:
  "resourceNcloudLoadBalancerRead conn n d = Inr (d', e) \<Longrightarrow> rd_Id d' = rd_Id d"
  by (auto simp: resourceNcloudLoadBalancerRead_def set_server_instance_list_def
      split: sum.splits prod.splits option.splits if_splits)

lemma getLoadBalancedServerInstanceList_eq:
  "getLoadBalancedServerInstanceList xs =
     (if \<exists>x\<in>set xs. ServerInstanceList x = [] then Inl IndexOutOfRange
      else Inr (map (\<lambda>x. ServerInstanceNo (hd (ServerInstanceList x))) xs))"
  by (induction xs) (auto split: list.splits sum.splits)

lemma example_build:
  "buildCreateLoadBalancerInstanceParams example_ext example_plan =
     Inr \<lparr>ReqLoadBalancerName = [], ReqLoadBalancerAlgorithmTypeCode = [],
          ReqLoadBalancerDescription = [],
          ReqLoadBalancerRuleList =
            [\<lparr>ReqProtocolTypeCode = ''HTTP'', ReqLoadBalancerPort = 80, ReqServerPort = 8080,
              ReqL7HealthCheckPath = ''/'', ReqCertificateName = [], ReqProxyProtocolUseYn = []\<rparr>],
          ReqServerInstanceNoList = [''srv-7''],
          ReqInternetLineTypeCode = [], ReqNetworkUsageTypeCode = [], ReqRegionNo = []\<rparr>"
  by (simp add: buildCreateLoadBalancerInstanceParams_def and_then_def example_plan_def d_Get_def
      example_attrs_def example_ext_def set_rule_field_def RequestLoadBalancerRule_zero_def)

lemma init_init_used_wait:
  "waitForLoadBalancerInstance example_ext (example_conn init_init_used) ''lb-1'' ''USED'' 5 =
     \<lparr>returned = Inr None, via = FromPoller, polls = 3, sleeps = 2, finished_at = 2300000000\<rparr>"
  by (simp add: waitForLoadBalancerInstance_def example_ext_def poll_until.simps fired_def
      init_init_used_def answer_def lb1_def example_instance_def CommonCode_of_def sent_def sleep_ns_eq)

text \<open>
  C9. Create indexes the first element of the create response's instance list without a
  guard: when the request is built and the create call returns a response with an empty
  list and no error, Create panics with an index out of range; when the list is not empty
  and Create returns, the resource id is the number of the list's first instance.
  getLoadBalancedServerInstanceList indexes the first server of every bound instance without
  a guard: it panics with an index out of range exactly when some bound instance has an empty
  server list, and otherwise returns the number of the first server of each.
\<close>

theorem first_element_is_indexed_unguarded:
  "(buildCreateLoadBalancerInstanceParams ext d = Inr req
      \<and> CreateLoadBalancerInstance conn req = (Some resp, None)
      \<and> LoadBalancerInstanceList resp = []
    \<longrightarrow> resourceNcloudLoadBalancerCreate ext conn d = Inl IndexOutOfRange)
   \<and> (buildCreateLoadBalancerInstanceParams ext d = Inr req
      \<and> CreateLoadBalancerInstance conn req = (Some resp, None)
      \<and> LoadBalancerInstanceList resp = inst # rest
      \<and> resourceNcloudLoadBalancerCreate ext conn d = Inr (d', e)
    \<longrightarrow> rd_Id d' = LoadBalancerInstanceNo inst)
   \<and> getLoadBalancedServerInstanceList xs =
       (if \<exists>x\<in>set xs. ServerInstanceList x = [] then Inl IndexOutOfRange
        else Inr (map (\<lambda>x. ServerInstanceNo (hd (ServerInstanceList x))) xs))"
proof (intro conjI impI; (elim conjE)?)
  assume "buildCreateLoadBalancerInstanceParams ext d = Inr req"
    and "CreateLoadBalancerInstance conn req = (Some resp, None)"
    and "LoadBalancerInstanceList resp = []"
  then show "resourceNcloudLoadBalancerCreate ext conn d = Inl IndexOutOfRange"
    by (simp add: resourceNcloudLoadBalancerCreate_def)
next
  assume "buildCreateLoadBalancerInstanceParams ext d = Inr req"
    and "CreateLoadBalancerInstance conn req = (Some resp, None)"
    and "LoadBalancerInstanceList resp = inst # rest"
    and "resourceNcloudLoadBalancerCreate ext conn d = Inr (d', e)"
  then show "rd_Id d' = LoadBalancerInstanceNo inst"
    by (auto simp: resourceNcloudLoadBalancerCreate_def Let_def d_SetId_def
        split: sum.splits option.splits dest: Read_keeps_Id)
next
  show "getLoadBalancedServerInstanceList xs =
       (if \<exists>x\<in>set xs. ServerInstanceList x = [] then Inl IndexOutOfRange
        else Inr (map (\<lambda>x. ServerInstanceNo (hd (ServerInstanceList x))) xs))"
    by (rule getLoadBalancedServerInstanceList_eq)
qed

text \<open>
  The create call returning no instance; the spec's poll sequence \<open>INIT, INIT, USED\<close>, after
  which the id is \<open>lb-1\<close>; a bound instance without servers; a bound instance with two.
\<close>

theorem first_element_is_indexed_unguarded_witness:
  "resourceNcloudLoadBalancerCreate example_ext created_nothing example_plan = Inl IndexOutOfRange
   \<and> (\<exists>d'. resourceNcloudLoadBalancerCreate example_ext (example_conn init_init_used) example_plan
               = Inr (d', None) \<and> rd_Id d' = ''lb-1'')
   \<and> getLoadBalancedServerInstanceList
        [\<lparr>ServerInstanceList = [\<lparr>ServerInstanceNo = ''srv-7''\<rparr>]\<rparr>, \<lparr>ServerInstanceList = []\<rparr>]
       = Inl IndexOutOfRange
   \<and> getLoadBalancedServerInstanceList
        [\<lparr>ServerInstanceList = [\<lparr>ServerInstanceNo = ''srv-7''\<rparr>, \<lparr>ServerInstanceNo = ''srv-8''\<rparr>]\<rparr>]
       = Inr [''srv-7'']"
proof -
  let ?none = "\<lparr>ListCommonResponse = CommonResponse_zero, LoadBalancerInstanceList = []\<rparr>"
  let ?one = "\<lparr>ListCommonResponse = CommonResponse_zero, LoadBalancerInstanceList = [lb1 ''INIT'']\<rparr>"
  obtain req where b: "buildCreateLoadBalancerInstanceParams example_ext example_plan = Inr req"
    using example_build by blast
  have c0: "CreateLoadBalancerInstance created_nothing req = (Some ?none, None)"
    by (simp add: created_nothing_def)
  have c1: "CreateLoadBalancerInstance (example_conn init_init_used) req = (Some ?one, None)"
    by (simp add: example_conn_def)
  have no: "LoadBalancerInstanceNo (lb1 ''INIT'') = ''lb-1''"
    by (simp add: lb1_def example_instance_def)
  have "\<exists>d'. resourceNcloudLoadBalancerRead (example_conn init_init_used) 3 (d_SetId example_plan ''lb-1'')
          = Inr (d', None)"
    by (simp add: resourceNcloudLoadBalancerRead_def d_SetId_def example_plan_def init_init_used_def
        answer_def lb1_def example_instance_def set_server_instance_list_def)
  then obtain d' where cr:
    "resourceNcloudLoadBalancerCreate example_ext (example_conn init_init_used) example_plan = Inr (d', None)"
    using b c1 init_init_used_wait
    by (auto simp: resourceNcloudLoadBalancerCreate_def no example_ext_def)
  note t = first_element_is_indexed_unguarded
  have 1: "resourceNcloudLoadBalancerCreate example_ext created_nothing example_plan = Inl IndexOutOfRange"
    using b c0 t [where ext = example_ext and d = example_plan and req = req
        and conn = created_nothing and resp = ?none]
    by simp
  have 2: "rd_Id d' = ''lb-1''"
    using b c1 cr no t [where ext = example_ext and d = example_plan and req = req
        and conn = "example_conn init_init_used" and resp = ?one and inst = "lb1 ''INIT''"
        and rest = "[]" and d' = d' and e = None]
    by simp
  have 3: "getLoadBalancedServerInstanceList
        [\<lparr>ServerInstanceList = [\<lparr>ServerInstanceNo = ''srv-7''\<rparr>]\<rparr>, \<lparr>ServerInstanceList = []\<rparr>]
       = Inl IndexOutOfRange"
    using t [where xs = "[\<lparr>ServerInstanceList = [\<lparr>ServerInstanceNo = ''srv-7''\<rparr>]\<rparr>, \<lparr>ServerInstanceList = []\<rparr>]"]
    by simp
  have 4: "getLoadBalancedServerInstanceList
        [\<lparr>ServerInstanceList = [\<lparr>ServerInstanceNo = ''srv-7''\<rparr>, \<lparr>ServerInstanceNo = ''srv-8''\<rparr>]\<rparr>]
       = Inr [''srv-7'']"
    using t [where xs = "[\<lparr>ServerInstanceList = [\<lparr>ServerInstanceNo = ''srv-7''\<rparr>, \<lparr>ServerInstanceNo = ''srv-8''\<rparr>]\<rparr>]"]
    by simp
  from 1 2 3 4 cr show ?thesis
    by blast
qed



end
